theory Spec2Isabelle
  imports Main "HOL-Library.Word" "HOL-Library.Monad_Syntax" "HOL-Library.Sublist"
begin

section \<open>JavaScript values used by \<open>src/rss.js\<close>\<close>

text \<open>
  A JavaScript string is a sequence of UTF-16 code units; \<open>length\<close>, \<open>substring\<close> and the
  regular expressions of the source all work on code units. String literals of the source
  are written \<open>lit ''...''\<close>.
\<close>

type_synonym jschar = "16 word"
type_synonym jsstring = "jschar list"

definition lit :: "string \<Rightarrow> jsstring" where
  "lit s = map of_char s"

text \<open>
  The values a field or argument can hold. The JSDoc of the source types them as strings;
  a missing property reads as \<open>Undefined\<close>. \<open>Obj t\<close> is an object that is not a string (it
  has no \<open>replace\<close> method and is never falsy); \<open>t\<close> is the text that ToString gives for it.
\<close>

datatype jsval = Undefined | Null | Str jsstring | Obj jsstring

text \<open>ToBoolean: \<open>if (v)\<close>, \<open>!v\<close>, \<open>v ? a : b\<close> and \<open>v || d\<close>.\<close>

fun truthy :: "jsval \<Rightarrow> bool" where
  "truthy Undefined = False"
| "truthy Null = False"
| "truthy (Str s) = (s \<noteq> [])"
| "truthy (Obj t) = True"

definition js_or :: "jsval \<Rightarrow> jsval \<Rightarrow> jsval" where
  "js_or v d = (if truthy v then v else d)"

text \<open>ToString, as applied by a template literal \<open>${v}\<close> and by a property key.\<close>

fun toString :: "jsval \<Rightarrow> jsstring" where
  "toString Undefined = lit ''undefined''"
| "toString Null = lit ''null''"
| "toString (Str s) = s"
| "toString (Obj t) = t"

section \<open>escapeXml\<close>

text \<open>
  \<open>str.replace(/c/g, r)\<close> for a pattern that is one literal character and a replacement
  text without \<open>$\<close>: every occurrence of the character is replaced, left to right.
\<close>

definition replace_char :: "jschar \<Rightarrow> jsstring \<Rightarrow> jsstring \<Rightarrow> jsstring" where
  "replace_char c r s = concat (map (\<lambda>x. if x = c then r else [x]) s)"

text \<open>The chain of five \<open>replace\<close> calls, in the order of the source.\<close>

definition escape_chain :: "jsstring \<Rightarrow> jsstring" where
  "escape_chain str =
     replace_char (of_char CHR 0x27) (lit ''&apos;'')
       (replace_char (of_char CHR 0x22) (lit ''&quot;'')
         (replace_char (of_char CHR ''>'') (lit ''&gt;'')
           (replace_char (of_char CHR ''<'') (lit ''&lt;'')
             (replace_char (of_char CHR ''&'') (lit ''&amp;'') str))))"

text \<open>
  \<open>escapeXml\<close>: a falsy argument gives the empty string; a string goes through the chain;
  any other value has no \<open>replace\<close> method, and the call throws a TypeError (\<open>None\<close>).
\<close>

fun escapeXml :: "jsval \<Rightarrow> jsstring option" where
  "escapeXml Undefined = Some []"
| "escapeXml Null = Some []"
| "escapeXml (Str s) = (if s = [] then Some [] else Some (escape_chain s))"
| "escapeXml (Obj t) = None"

text \<open>
  The entity table of the specification: what one character becomes. It is compared with
  \<open>escape_chain\<close> below.
\<close>

definition entity :: "jschar \<Rightarrow> jsstring" where
  "entity c =
     (if c = of_char CHR ''&'' then lit ''&amp;''
      else if c = of_char CHR ''<'' then lit ''&lt;''
      else if c = of_char CHR ''>'' then lit ''&gt;''
      else if c = of_char CHR 0x22 then lit ''&quot;''
      else if c = of_char CHR 0x27 then lit ''&apos;''
      else [c])"

definition reserved :: "jschar set" where
  "reserved = {of_char CHR ''&'', of_char CHR ''<'', of_char CHR ''>'', of_char CHR 0x22,
     of_char CHR 0x27}"

section \<open>getSourceName\<close>

text \<open>
  \<open>names\<close> is an object literal, so \<open>names[source]\<close> finds the three own properties first
  and then the properties every object inherits from \<open>Object.prototype\<close> (ECMAScript,
  with Annex B): functions, and for \<open>__proto__\<close> the prototype object itself. A key found
  nowhere reads as \<open>undefined\<close>.
\<close>

definition names :: "(jsstring \<times> jsval) list" where
  "names =
     [(lit ''twitter'', Str (lit ''Twitter/X'')),
      (lit ''reddit'', Str (lit ''Reddit'')),
      (lit ''github'', Str (lit ''GitHub''))]"

definition native_function :: "string \<Rightarrow> jsval" where
  "native_function n = Obj (lit (''function '' @ n @ ''() { [native code] }''))"

definition Object_prototype :: "(jsstring \<times> jsval) list" where
  "Object_prototype =
     [(lit ''constructor'', native_function ''Object''),
      (lit ''hasOwnProperty'', native_function ''hasOwnProperty''),
      (lit ''isPrototypeOf'', native_function ''isPrototypeOf''),
      (lit ''propertyIsEnumerable'', native_function ''propertyIsEnumerable''),
      (lit ''toLocaleString'', native_function ''toLocaleString''),
      (lit ''toString'', native_function ''toString''),
      (lit ''valueOf'', native_function ''valueOf''),
      (lit ''__proto__'', Obj (lit ''[object Object]'')),
      (lit ''__defineGetter__'', native_function ''__defineGetter__''),
      (lit ''__defineSetter__'', native_function ''__defineSetter__''),
      (lit ''__lookupGetter__'', native_function ''__lookupGetter__''),
      (lit ''__lookupSetter__'', native_function ''__lookupSetter__'')]"

definition get_property :: "(jsstring \<times> jsval) list \<Rightarrow> jsval \<Rightarrow> jsval" where
  "get_property obj key =
     (case map_of obj (toString key) of
        Some v \<Rightarrow> v
      | None \<Rightarrow>
          (case map_of Object_prototype (toString key) of
             Some v \<Rightarrow> v
           | None \<Rightarrow> Undefined))"

definition getSourceName :: "jsval \<Rightarrow> jsval" where
  "getSourceName source = js_or (get_property names source) source"

section \<open>getItemTitle\<close>

text \<open>
  The characters matched by \<open>\s\<close> and removed by \<open>trim\<close>: ECMAScript's WhiteSpace and
  LineTerminator code points (tab, the line ends, vertical tab, form feed, space, no-break
  space, U+1680, U+2000 to U+200A, U+2028, U+2029, U+202F, U+205F, U+3000, U+FEFF).
\<close>

definition is_space :: "jschar \<Rightarrow> bool" where
  "is_space c \<longleftrightarrow>
     c = 0x09 \<or> c = 0x0A \<or> c = 0x0B \<or> c = 0x0C \<or> c = 0x0D \<or> c = 0x20 \<or> c = 0xA0 \<or>
     c = 0x1680 \<or> (0x2000 \<le> c \<and> c \<le> 0x200A) \<or> c = 0x2028 \<or> c = 0x2029 \<or>
     c = 0x202F \<or> c = 0x205F \<or> c = 0x3000 \<or> c = 0xFEFF"

text \<open>\<open>replace(/\s+/g, ' ')\<close>: each maximal run of white space becomes one space.\<close>

function collapse :: "jsstring \<Rightarrow> jsstring" where
  "collapse [] = []"
| "collapse (c # cs) =
     (if is_space c then 0x20 # collapse (dropWhile is_space cs) else c # collapse cs)"
  by pat_completeness auto
termination
  by (relation "measure length") (auto simp: less_Suc_eq_le length_dropWhile_le)

definition trim :: "jsstring \<Rightarrow> jsstring" where
  "trim s = rev (dropWhile is_space (rev (dropWhile is_space s)))"

text \<open>\<open>s.substring(a, b)\<close> for indices that are natural numbers.\<close>

definition substring :: "jsstring \<Rightarrow> nat \<Rightarrow> nat \<Rightarrow> jsstring" where
  "substring s a b = take (max a b - min a b) (drop (min a b) s)"

section \<open>Dates\<close>

text \<open>
  A date-like argument is a string or a Date object (JSDoc: \<open>string|Date\<close>). A Date object
  holds a time value: milliseconds since the epoch, or NaN (\<open>None\<close>) for an invalid date.
  \<open>new Date(s)\<close> on a string is \<open>Date.parse\<close>, whose result for formats other than the ISO
  one is left to the engine: it is the parameter \<open>parse\<close>. \<open>new Date(d)\<close> on a Date copies
  the time value.
\<close>

datatype datelike = DateString jsstring | DateObject "int option"

definition new_Date :: "(jsstring \<Rightarrow> int option) \<Rightarrow> datelike \<Rightarrow> int option" where
  "new_Date parse date = (case date of DateString s \<Rightarrow> parse s | DateObject tv \<Rightarrow> tv)"

text \<open>Decimal digits of a natural number, and ECMAScript's ToZeroPaddedDecimalString.\<close>

fun decimal :: "nat \<Rightarrow> jsstring" where
  "decimal n = (if n < 10 then [0x30 + of_nat n] else decimal (n div 10) @ [0x30 + of_nat (n mod 10)])"

definition zero_padded :: "nat \<Rightarrow> nat \<Rightarrow> jsstring" where
  "zero_padded n k = replicate (k - length (decimal n)) (0x30 :: jschar) @ decimal n"

text \<open>
  ECMAScript's day and time arithmetic (\<open>Day\<close>, \<open>WeekDay\<close>, \<open>DayFromYear\<close>, \<open>InLeapYear\<close>,
  \<open>MonthFromTime\<close>, \<open>DateFromTime\<close>), on integers; \<open>div\<close> and \<open>mod\<close> round down, as
  \<open>floor\<close> does. \<open>YearFromTime\<close> is computed from the day number by the usual
  era decomposition of the Gregorian calendar (eras of 400 years, 146097 days, starting
  on 1 March).
\<close>

definition Day :: "int \<Rightarrow> int" where
  "Day t = t div 86400000"

definition WeekDay :: "int \<Rightarrow> int" where
  "WeekDay t = (Day t + 4) mod 7"

definition DayFromYear :: "int \<Rightarrow> int" where
  "DayFromYear y =
     365 * (y - 1970) + (y - 1969) div 4 - (y - 1901) div 100 + (y - 1601) div 400"

definition YearFromTime :: "int \<Rightarrow> int" where
  "YearFromTime t =
     (let z = Day t + 719468;
          era = z div 146097;
          doe = z mod 146097;
          yoe = (doe - doe div 1460 + doe div 36524 - doe div 146096) div 365;
          doy = doe - (365 * yoe + yoe div 4 - yoe div 100)
      in yoe + era * 400 + (if doy < 306 then 0 else 1))"

definition InLeapYear :: "int \<Rightarrow> bool" where
  "InLeapYear t =
     (let y = YearFromTime t in y mod 4 = 0 \<and> (y mod 100 \<noteq> 0 \<or> y mod 400 = 0))"

definition DayWithinYear :: "int \<Rightarrow> int" where
  "DayWithinYear t = Day t - DayFromYear (YearFromTime t)"

definition MonthFromTime :: "int \<Rightarrow> int" where
  "MonthFromTime t =
     (let d = DayWithinYear t; l = (if InLeapYear t then 1 else 0)
      in if d < 31 then 0 else if d < 59 + l then 1 else if d < 90 + l then 2
         else if d < 120 + l then 3 else if d < 151 + l then 4 else if d < 181 + l then 5
         else if d < 212 + l then 6 else if d < 243 + l then 7 else if d < 273 + l then 8
         else if d < 304 + l then 9 else if d < 334 + l then 10 else 11)"

definition DateFromTime :: "int \<Rightarrow> int" where
  "DateFromTime t =
     (let d = DayWithinYear t; l = (if InLeapYear t then 1 else 0); m = MonthFromTime t
      in if m = 0 then d + 1 else if m = 1 then d - 30 else if m = 2 then d - 58 - l
         else if m = 3 then d - 89 - l else if m = 4 then d - 119 - l
         else if m = 5 then d - 150 - l else if m = 6 then d - 180 - l
         else if m = 7 then d - 211 - l else if m = 8 then d - 242 - l
         else if m = 9 then d - 272 - l else if m = 10 then d - 303 - l else d - 333 - l)"

definition weekday_names :: "string list" where
  "weekday_names = [''Sun'', ''Mon'', ''Tue'', ''Wed'', ''Thu'', ''Fri'', ''Sat'']"

definition month_names :: "string list" where
  "month_names = [''Jan'', ''Feb'', ''Mar'', ''Apr'', ''May'', ''Jun'', ''Jul'', ''Aug'', ''Sep'',
     ''Oct'', ''Nov'', ''Dec'']"

definition TimeString :: "int \<Rightarrow> jsstring" where
  "TimeString t =
     zero_padded (nat (t div 3600000 mod 24)) 2 @ lit '':'' @
     zero_padded (nat (t div 60000 mod 60)) 2 @ lit '':'' @
     zero_padded (nat (t div 1000 mod 60)) 2 @ lit '' GMT''"

text \<open>\<open>Date.prototype.toUTCString\<close>: the sentinel for NaN, else the RFC 1123 text in UTC.\<close>

fun toUTCString :: "int option \<Rightarrow> jsstring" where
  "toUTCString None = lit ''Invalid Date''"
| "toUTCString (Some tv) =
     lit (weekday_names ! nat (WeekDay tv)) @ lit '', '' @
     zero_padded (nat (DateFromTime tv)) 2 @ lit '' '' @
     lit (month_names ! nat (MonthFromTime tv)) @ lit '' '' @
     (if 0 \<le> YearFromTime tv then [] else lit ''-'') @
     zero_padded (nat \<bar>YearFromTime tv\<bar>) 4 @ lit '' '' @
     TimeString tv"

definition toRfc822 :: "(jsstring \<Rightarrow> int option) \<Rightarrow> datelike \<Rightarrow> jsstring" where
  "toRfc822 parse date = (let d = new_Date parse date in toUTCString d)"

section \<open>Feed items\<close>

text \<open>
  The optional metadata of an item: counts, each of which may be missing. A count is an
  integer (a JavaScript number without fraction, in the range where ToString prints all
  its digits).
\<close>

record tweet_metadata =
  likes :: "int option"
  retweets :: "int option"
  replies :: "int option"

record item =
  item_id :: jsval
  url :: jsval
  author :: jsval
  source :: jsval
  category :: jsval
  content :: jsval
  timestamp :: datelike
  metadata :: "tweet_metadata option"

text \<open>\<open>n || 0\<close> on a count that may be missing, and ToString of an integer number.\<close>

definition or_zero :: "int option \<Rightarrow> int" where
  "or_zero v = (case v of None \<Rightarrow> 0 | Some n \<Rightarrow> if n = 0 then 0 else n)"

definition Number_toString :: "int \<Rightarrow> jsstring" where
  "Number_toString n = (if n < 0 then lit ''-'' @ decimal (nat (- n)) else decimal (nat n))"

text \<open>
  \<open>getItemTitle\<close>. \<open>item.content.replace\<close> on a truthy value that is not a string throws a
  TypeError (\<open>None\<close>).
\<close>

definition getItemTitle :: "item \<Rightarrow> jsstring option" where
  "getItemTitle item =
     (if truthy (content item) then
        (case content item of
           Str s \<Rightarrow>
             (let text = trim (collapse s)
              in if length text > 80 then Some (substring text 0 77 @ lit ''...'')
                 else Some text)
         | _ \<Rightarrow> None)
      else Some (toString (source item) @ lit '' post by '' @ toString (author item)))"

section \<open>generateItem\<close>

text \<open>The local constants of \<open>generateItem\<close>, in the order of the source.\<close>

record item_locals =
  l_title :: jsstring
  l_link :: jsstring
  l_author :: jsstring
  l_source :: jsval
  l_category :: jsstring
  l_pubDate :: jsstring
  l_guid :: jsstring
  l_description :: jsstring

text \<open>The lines appended to \<open>description\<close> for a Twitter item with metadata.\<close>

definition twitter_block :: "tweet_metadata \<Rightarrow> jsstring" where
  \<open>twitter_block m =
     lit ''<hr/>'' @
     lit ''<p><small>'' @
     (lit ''Likes: '' @ Number_toString (or_zero (likes m)) @ lit '' | '') @
     (lit ''Retweets: '' @ Number_toString (or_zero (retweets m)) @ lit '' | '') @
     (lit ''Replies: '' @ Number_toString (or_zero (replies m))) @
     lit ''</small></p>''\<close>

text \<open>The variable \<open>description\<close>, built by appending; \<open>src\<close> is the local \<open>source\<close>.\<close>

definition build_description :: "item \<Rightarrow> jsval \<Rightarrow> jsstring" where
  \<open>build_description item src =
     lit ''<![CDATA['' @
     (lit ''<p><strong>Author:</strong> '' @ toString (author item) @ lit ''</p>'') @
     (lit ''<p><strong>Source:</strong> '' @ toString src @ lit ''</p>'') @
     (if truthy (category item)
      then lit ''<p><strong>Category:</strong> '' @ toString (category item) @ lit ''</p>''
      else []) @
     lit ''<hr/>'' @
     (lit ''<p>'' @ toString (js_or (content item) (Str [])) @ lit ''</p>'') @
     (case metadata item of
        Some m \<Rightarrow> if source item = Str (lit ''twitter'') then twitter_block m else []
      | None \<Rightarrow> []) @
     lit '']]>''\<close>

definition generateItem_locals :: "(jsstring \<Rightarrow> int option) \<Rightarrow> item \<Rightarrow> item_locals option" where
  "generateItem_locals parse item =
     do {
       t \<leftarrow> getItemTitle item;
       title \<leftarrow> escapeXml (Str t);
       link \<leftarrow> escapeXml (url item);
       author' \<leftarrow> escapeXml (author item);
       category' \<leftarrow> (if truthy (category item) then escapeXml (category item)
                     else Some (lit ''uncategorized''));
       guid \<leftarrow> escapeXml (item_id item);
       Some \<lparr>l_title = title, l_link = link, l_author = author',
         l_source = getSourceName (source item), l_category = category',
         l_pubDate = toRfc822 parse (timestamp item), l_guid = guid,
         l_description = build_description item (getSourceName (source item))\<rparr>
     }"

text \<open>The template literal that \<open>generateItem\<close> returns.\<close>

definition item_template :: "item_locals \<Rightarrow> jsstring option" where
  \<open>item_template L =
     do {
       esc_source \<leftarrow> escapeXml (l_source L);
       Some (lit ''    <item>\<newline>      <title>'' @ l_title L @
         lit ''</title>\<newline>      <link>'' @ l_link L @
         lit ''</link>\<newline>      <description>'' @ l_description L @
         lit ''</description>\<newline>      <author>'' @ l_author L @
         lit ''</author>\<newline>      <category>'' @ l_category L @
         lit ''</category>\<newline>      <pubDate>'' @ l_pubDate L @
         lit ''</pubDate>\<newline>      <guid isPermaLink="false">'' @ l_guid L @
         lit ''</guid>\<newline>      <source url="'' @ l_link L @ lit ''">'' @ esc_source @
         lit ''</source>\<newline>    </item>'')
     }\<close>

definition generateItem :: "(jsstring \<Rightarrow> int option) \<Rightarrow> item \<Rightarrow> jsstring option" where
  "generateItem parse item = do { L \<leftarrow> generateItem_locals parse item; item_template L }"

section \<open>generateRssFeed\<close>

record options =
  title :: jsval
  link :: jsval
  description :: jsval

text \<open>\<open>items.map(f)\<close> where \<open>f\<close> may throw, and \<open>fragments.join(sep)\<close>.\<close>

fun array_map :: "('a \<Rightarrow> 'b option) \<Rightarrow> 'a list \<Rightarrow> 'b list option" where
  "array_map f [] = Some []"
| "array_map f (x # xs) = do { y \<leftarrow> f x; ys \<leftarrow> array_map f xs; Some (y # ys) }"

fun join :: "jsstring \<Rightarrow> jsstring list \<Rightarrow> jsstring" where
  "join sep [] = []"
| "join sep [x] = x"
| "join sep (x # y # ys) = x @ sep @ join sep (y # ys)"

text \<open>The template literal that \<open>generateRssFeed\<close> returns.\<close>

definition feed_template :: "jsstring \<Rightarrow> jsstring \<Rightarrow> jsstring \<Rightarrow> jsstring \<Rightarrow> jsstring \<Rightarrow> jsstring" where
  \<open>feed_template t l d lastBuildDate itemsXml =
     lit ''<?xml version="1.0" encoding="UTF-8"?>\<newline>'' @
     lit ''<rss version="2.0" xmlns:atom="http://www.w3.org/2005/Atom">\<newline>'' @
     lit ''  <channel>\<newline>'' @
     lit ''    <title>'' @ t @ lit ''</title>\<newline>'' @
     lit ''    <link>'' @ l @ lit ''</link>\<newline>'' @
     lit ''    <description>'' @ d @ lit ''</description>\<newline>'' @
     lit ''    <language>en-us</language>\<newline>'' @
     lit ''    <lastBuildDate>'' @ lastBuildDate @ lit ''</lastBuildDate>\<newline>'' @
     lit ''    <generator>Factory AI Feed Scraper</generator>\<newline>'' @
     lit ''    <ttl>10</ttl>\<newline>'' @
     itemsXml @ lit ''\<newline>'' @
     lit ''  </channel>\<newline>'' @
     lit ''</rss>''\<close>

text \<open>
  \<open>generateRssFeed\<close>. \<open>now\<close> is the time value of \<open>new Date()\<close>; \<open>opts = None\<close> is a call
  without the second argument, which defaults to \<open>{}\<close>.
\<close>

definition no_options :: options where
  "no_options = \<lparr>title = Undefined, link = Undefined, description = Undefined\<rparr>"

definition generateRssFeed ::
  "(jsstring \<Rightarrow> int option) \<Rightarrow> int \<Rightarrow> item list \<Rightarrow> options option \<Rightarrow> jsstring option" where
  "generateRssFeed parse now items opts =
     (let options = (case opts of None \<Rightarrow> no_options | Some given \<Rightarrow> given) in
      do {
        t \<leftarrow> escapeXml (js_or (title options) (Str (lit ''Factory AI Social Feed'')));
        l \<leftarrow> escapeXml (js_or (link options) (Str (lit ''https://factory.ai'')));
        d \<leftarrow> escapeXml (js_or (description options)
               (Str (lit ''Aggregated mentions from Twitter, Reddit, and GitHub'')));
        fragments \<leftarrow> array_map (generateItem parse) items;
        Some (feed_template t l d (toRfc822 parse (DateObject (Some now)))
               (join (lit ''\<newline>'') fragments))
      })"

section \<open>Code units of literals\<close>

lemma of_char_word16: "(of_char c :: jschar) = of_nat (of_char c)"
  by (simp add: of_nat_of_char)

lemma unat_of_char16: "unat (of_char c :: jschar) = of_char c"
proof -
  have "(of_char c :: nat) < 256"
    by (rule nat_of_char_less_256)
  then have "(of_char c :: nat) < 65536"
    by linarith
  then show ?thesis
    by (simp add: of_char_word16 unat_of_nat)
qed

lemma of_char16_eq_iff: "(of_char a :: jschar) = of_char b \<longleftrightarrow> a = b"
proof
  assume "(of_char a :: jschar) = of_char b"
  then have "unat (of_char a :: jschar) = unat (of_char b :: jschar)"
    by simp
  then have "(of_char a :: nat) = of_char b"
    by (simp only: unat_of_char16)
  then show "a = b"
    by simp
qed simp

lemma lit_eq_iff: "lit a = lit b \<longleftrightarrow> a = b"
proof -
  have "inj (of_char :: char \<Rightarrow> jschar)"
    by (simp add: inj_on_def of_char16_eq_iff)
  then show ?thesis
    unfolding lit_def by (rule inj_map_eq_map)
qed

lemma lit_Nil: "lit [] = []"
  by (simp add: lit_def)

lemma lit_Cons: "lit (c # cs) = of_char c # lit cs"
  by (simp add: lit_def)

lemma lit_append: "lit (a @ b) = lit a @ lit b"
  by (simp add: lit_def)

section \<open>Properties of escapeXml\<close>

lemma replace_char_Nil: "replace_char c r [] = []"
  by (simp add: replace_char_def)

lemma replace_char_Cons:
  "replace_char c r (x # xs) = (if x = c then r else [x]) @ replace_char c r xs"
  by (simp add: replace_char_def)

lemma replace_char_append:
  "replace_char c r (a @ b) = replace_char c r a @ replace_char c r b"
  by (simp add: replace_char_def)

lemma escape_chain_Nil: "escape_chain [] = []"
  by (simp add: escape_chain_def replace_char_Nil)

lemma escape_chain_append: "escape_chain (a @ b) = escape_chain a @ escape_chain b"
  by (simp add: escape_chain_def replace_char_append)

text \<open>
  On one character the five passes act as the entity table: the entity written by the
  first pass holds none of the characters the later passes look for.
\<close>

lemma escape_chain_single: "escape_chain [x] = entity x"
  by (simp add: escape_chain_def entity_def replace_char_Cons replace_char_Nil lit_Cons lit_Nil
      of_char16_eq_iff)

lemma escape_chain_entity: "escape_chain s = concat (map entity s)"
proof (induction s)
  case Nil
  show ?case by (simp add: escape_chain_Nil)
next
  case (Cons x xs)
  have "escape_chain (x # xs) = escape_chain [x] @ escape_chain xs"
    using escape_chain_append [of "[x]" xs] by simp
  then show ?case
    by (simp add: escape_chain_single Cons.IH)
qed

lemma escapeXml_Str: "escapeXml (Str s) = Some (concat (map entity s))"
  by (simp add: escape_chain_entity)

lemma entity_unreserved: "c \<notin> reserved \<Longrightarrow> entity c = [c]"
  by (simp add: entity_def reserved_def)

text \<open>
  Claim C2. \<open>escapeXml\<close> returns the empty string for \<open>undefined\<close>, \<open>null\<close> and the empty
  string, without throwing. For every string it returns the result of the five
  replacements in the order \<open>&\<close>, \<open><\<close>, \<open>>\<close>, double quote, apostrophe, and that result is
  the string with each reserved character replaced by its entity and every other
  character left as it is.
\<close>

theorem escapeXml_entities:
  "escapeXml Undefined = Some [] \<and> escapeXml Null = Some [] \<and> escapeXml (Str []) = Some [] \<and>
   escapeXml (Str s) = Some (escape_chain s) \<and>
   escape_chain s = concat (map (\<lambda>c. if c \<in> reserved then entity c else [c]) s)"
proof -
  have "(\<lambda>c. if c \<in> reserved then entity c else [c]) = entity"
    by (rule ext) (simp add: entity_unreserved)
  then show ?thesis
    by (simp add: escape_chain_entity escape_chain_Nil)
qed

section \<open>Properties of getSourceName\<close>

lemma getSourceName_known:
  "getSourceName (Str (lit ''twitter'')) = Str (lit ''Twitter/X'') \<and>
   getSourceName (Str (lit ''reddit'')) = Str (lit ''Reddit'') \<and>
   getSourceName (Str (lit ''github'')) = Str (lit ''GitHub'')"
  by (simp add: getSourceName_def get_property_def names_def js_or_def lit_eq_iff lit_Nil lit_Cons)

lemma getSourceName_fallback:
  assumes "map_of names s = None" and "map_of Object_prototype s = None"
  shows "getSourceName (Str s) = Str s"
  using assms by (simp add: getSourceName_def get_property_def js_or_def)

lemma getSourceName_mastodon: "getSourceName (Str (lit ''mastodon'')) = Str (lit ''mastodon'')"
  by (simp add: getSourceName_def get_property_def names_def Object_prototype_def js_or_def
      lit_eq_iff)

text \<open>
  Claim C3. The fallback of \<open>getSourceName\<close> is not the identity on every unknown string:
  for \<open>"constructor"\<close> the lookup \<open>names[source]\<close> finds the function inherited from
  \<open>Object.prototype\<close>, which is truthy, so the function is returned instead of the string,
  and escaping the returned value, as \<open>generateItem\<close> does, throws.
\<close>

theorem getSourceName_constructor:
  "getSourceName (Str (lit ''constructor'')) = Obj (lit ''function Object() { [native code] }'') \<and>
   getSourceName (Str (lit ''constructor'')) \<noteq> Str (lit ''constructor'') \<and>
   escapeXml (getSourceName (Str (lit ''constructor''))) = None"
  by (simp add: getSourceName_def get_property_def names_def Object_prototype_def js_or_def
      native_function_def lit_eq_iff)

section \<open>Escaping twice\<close>


lemma entity_length_pos: "1 \<le> length (entity c)"
  by (simp add: entity_def lit_Cons lit_Nil)

lemma entity_reserved_length: "c \<in> reserved \<Longrightarrow> 1 < length (entity c)"
  by (auto simp add: entity_def reserved_def lit_Cons lit_Nil)

lemma entity_reserved_amp: "c \<in> reserved \<Longrightarrow> of_char CHR ''&'' \<in> set (entity c)"
  by (auto simp add: entity_def reserved_def lit_Cons lit_Nil)

lemma amp_reserved: "of_char CHR ''&'' \<in> reserved"
  by (simp add: reserved_def)

lemma entities_length: "length s \<le> length (concat (map entity s))"
proof (induction s)
  case Nil
  show ?case by simp
next
  case (Cons x xs)
  have "1 \<le> length (entity x)" by (rule entity_length_pos)
  with Cons.IH show ?case by simp
qed

lemma entities_longer:
  "set s \<inter> reserved \<noteq> {} \<Longrightarrow> length s < length (concat (map entity s))"
proof (induction s)
  case Nil
  then show ?case by simp
next
  case (Cons x xs)
  show ?case
  proof (cases "x \<in> reserved")
    case True
    then have "1 < length (entity x)" by (rule entity_reserved_length)
    moreover have "length xs \<le> length (concat (map entity xs))" by (rule entities_length)
    ultimately show ?thesis by simp
  next
    case False
    with Cons.prems have "set xs \<inter> reserved \<noteq> {}" by auto
    then have "length xs < length (concat (map entity xs))" by (rule Cons.IH)
    moreover have "entity x = [x]" using False by (rule entity_unreserved)
    ultimately show ?thesis by simp
  qed
qed

lemma entities_unchanged: "set s \<inter> reserved = {} \<Longrightarrow> concat (map entity s) = s"
  by (induction s) (auto simp add: entity_unreserved)

lemma entities_amp:
  "set s \<inter> reserved \<noteq> {} \<Longrightarrow> of_char CHR ''&'' \<in> set (concat (map entity s))"
proof -
  assume "set s \<inter> reserved \<noteq> {}"
  then obtain c where c: "c \<in> set s" "c \<in> reserved" by auto
  from c(2) have "of_char CHR ''&'' \<in> set (entity c)" by (rule entity_reserved_amp)
  with c show ?thesis by (simp only: set_concat set_map) blast
qed

lemma escape_twice_differs:
  assumes "set s \<inter> reserved \<noteq> {}"
  shows "Option.bind (escapeXml (Str s)) (\<lambda>e. escapeXml (Str e)) \<noteq> escapeXml (Str s)"
proof -
  let ?e = "concat (map entity s)"
  have "of_char CHR ''&'' \<in> set ?e" using assms by (rule entities_amp)
  then have "set ?e \<inter> reserved \<noteq> {}" using amp_reserved by auto
  then have "length ?e < length (concat (map entity ?e))" by (rule entities_longer)
  then have "concat (map entity ?e) \<noteq> ?e" by auto
  moreover have "Option.bind (escapeXml (Str s)) (\<lambda>e. escapeXml (Str e)) =
      Some (concat (map entity ?e))"
    by (simp add: escapeXml_Str del: escapeXml.simps)
  moreover have "escapeXml (Str s) = Some ?e" by (rule escapeXml_Str)
  ultimately show ?thesis by simp
qed

text \<open>
  Claim C5. Escaping twice differs from escaping once on every string that holds \<open>&\<close>;
  a string that holds none of the five reserved characters is returned unchanged; and
  escaping twice equals escaping once exactly on the strings without reserved characters.
\<close>

theorem escapeXml_twice:
  "(of_char CHR ''&'' \<in> set s \<longrightarrow>
      Option.bind (escapeXml (Str s)) (\<lambda>e. escapeXml (Str e)) \<noteq> escapeXml (Str s)) \<and>
   (set s \<inter> reserved = {} \<longrightarrow> escapeXml (Str s) = Some s) \<and>
   (Option.bind (escapeXml (Str s)) (\<lambda>e. escapeXml (Str e)) = escapeXml (Str s)
      \<longleftrightarrow> set s \<inter> reserved = {})"
proof (intro conjI impI iffI)
  assume "of_char CHR ''&'' \<in> set s"
  then have "set s \<inter> reserved \<noteq> {}" using amp_reserved by auto
  then show "Option.bind (escapeXml (Str s)) (\<lambda>e. escapeXml (Str e)) \<noteq> escapeXml (Str s)"
    by (rule escape_twice_differs)
next
  assume "set s \<inter> reserved = {}"
  then show "escapeXml (Str s) = Some s"
    by (simp only: escapeXml_Str entities_unchanged)
next
  assume "Option.bind (escapeXml (Str s)) (\<lambda>e. escapeXml (Str e)) = escapeXml (Str s)"
  then show "set s \<inter> reserved = {}"
    using escape_twice_differs [of s] by blast
next
  assume h: "set s \<inter> reserved = {}"
  then have "escapeXml (Str s) = Some s"
    by (simp only: escapeXml_Str entities_unchanged)
  then show "Option.bind (escapeXml (Str s)) (\<lambda>e. escapeXml (Str e)) = escapeXml (Str s)"
    by simp
qed

theorem escapeXml_twice_witness:
  "of_char CHR ''&'' \<in> set (lit ''a&b'') \<and>
   escapeXml (Str (lit ''a&b'')) = Some (lit ''a&amp;b'') \<and>
   Option.bind (escapeXml (Str (lit ''a&b''))) (\<lambda>e. escapeXml (Str e)) = Some (lit ''a&amp;amp;b'') \<and>
   Option.bind (escapeXml (Str (lit ''a&b''))) (\<lambda>e. escapeXml (Str e)) \<noteq> escapeXml (Str (lit ''a&b'')) \<and>
   set (lit ''ab'') \<inter> reserved = {} \<and>
   escapeXml (Str (lit ''ab'')) = Some (lit ''ab'') \<and>
   Option.bind (escapeXml (Str (lit ''ab''))) (\<lambda>e. escapeXml (Str e)) = escapeXml (Str (lit ''ab''))"
  using escapeXml_twice [of "lit ''a&b''"] escapeXml_twice [of "lit ''ab''"]
  by (simp add: escapeXml_Str entity_def reserved_def lit_Cons lit_Nil del: escapeXml.simps)

section \<open>Properties of getItemTitle\<close>

lemma is_space_space: "is_space 0x20"
  by (simp add: is_space_def)

lemma collapse_not_space: "\<not> is_space c \<Longrightarrow> collapse (c # cs) = c # collapse cs"
  by simp

lemma collapse_run:
  assumes "ws \<noteq> []" and "\<forall>c\<in>set ws. is_space c" and "rest = [] \<or> \<not> is_space (hd rest)"
  shows "collapse (ws @ rest) = 0x20 # collapse rest"
proof -
  from assms(1) obtain c cs where ws: "ws = c # cs" by (cases ws) auto
  from assms(2) ws have c: "is_space c" and cs: "\<forall>x\<in>set cs. is_space x" by auto
  from assms(3) have "dropWhile is_space rest = rest" by (cases rest) auto
  with cs have "dropWhile is_space (cs @ rest) = rest"
    by (simp add: dropWhile_append)
  with c ws show ?thesis by simp
qed

lemma collapse_blank:
  assumes "s \<noteq> []" and "\<forall>c\<in>set s. is_space c"
  shows "collapse s = [0x20]"
  using collapse_run [of s "[]"] assms by simp

lemma trim_space: "trim [0x20] = []"
  by (simp add: trim_def is_space_space)

lemma collapse_only_space: "c \<in> set (collapse s) \<Longrightarrow> is_space c \<Longrightarrow> c = 0x20"
  by (induction s rule: collapse.induct) (auto split: if_splits)

lemma collapse_head_space:
  "collapse s = b # v \<Longrightarrow> is_space b \<Longrightarrow> s \<noteq> [] \<and> is_space (hd s)"
  by (cases s) (auto split: if_splits)

lemma dropWhile_head: "dropWhile P xs = [] \<or> \<not> P (hd (dropWhile P xs))"
  by (induction xs) auto

lemma collapse_no_adjacent:
  "collapse s = u @ a # b # v \<Longrightarrow> \<not> (is_space a \<and> is_space b)"
proof (induction s arbitrary: u rule: collapse.induct)
  case 1
  then show ?case by simp
next
  case (2 c cs)
  show ?case
  proof (cases "is_space c")
    case True
    let ?r = "dropWhile is_space cs"
    from True "2.prems" have eq: "0x20 # collapse ?r = u @ a # b # v" by simp
    show ?thesis
    proof (cases u)
      case Nil
      with eq have "collapse ?r = b # v" by simp
      then have "is_space b \<Longrightarrow> ?r \<noteq> [] \<and> is_space (hd ?r)"
        by (rule collapse_head_space)
      with dropWhile_head [of is_space cs] show ?thesis by blast
    next
      case (Cons x u')
      with eq have "collapse ?r = u' @ a # b # v" by simp
      with True show ?thesis by (rule "2.IH"(1))
    qed
  next
    case False
    with "2.prems" have eq: "c # collapse cs = u @ a # b # v" by simp
    show ?thesis
    proof (cases u)
      case Nil
      with eq have "a = c" by simp
      with False show ?thesis by simp
    next
      case (Cons x u')
      with eq have "collapse cs = u' @ a # b # v" by simp
      with False show ?thesis by (rule "2.IH"(2))
    qed
  qed
qed

lemma filter_dropWhile_space:
  "filter (\<lambda>c. \<not> is_space c) (dropWhile is_space xs) = filter (\<lambda>c. \<not> is_space c) xs"
  by (induction xs) auto

lemma collapse_filter:
  "filter (\<lambda>c. \<not> is_space c) (collapse s) = filter (\<lambda>c. \<not> is_space c) s"
  by (induction s rule: collapse.induct) (simp_all add: is_space_space filter_dropWhile_space)

lemma trim_decompose:
  "\<exists>pre post. s = pre @ trim s @ post \<and> (\<forall>c\<in>set pre. is_space c) \<and> (\<forall>c\<in>set post. is_space c)"
proof -
  let ?d = "dropWhile is_space s"
  have 1: "s = takeWhile is_space s @ ?d" by simp
  have "rev (takeWhile is_space (rev ?d) @ dropWhile is_space (rev ?d)) = ?d"
    by (simp only: takeWhile_dropWhile_id rev_rev_ident)
  then have "rev (dropWhile is_space (rev ?d)) @ rev (takeWhile is_space (rev ?d)) = ?d"
    by (simp only: rev_append)
  then have 2: "?d = trim s @ rev (takeWhile is_space (rev ?d))"
    by (simp only: trim_def)
  have 3: "\<forall>c\<in>set (takeWhile is_space s). is_space c"
    by (auto dest: set_takeWhileD)
  have 4: "\<forall>c\<in>set (rev (takeWhile is_space (rev ?d))). is_space c"
    by (auto dest: set_takeWhileD)
  from 1 2 have "s = takeWhile is_space s @ trim s @ rev (takeWhile is_space (rev ?d))"
    by simp
  with 3 4 show ?thesis by blast
qed

lemma trim_filter:
  "filter (\<lambda>c. \<not> is_space c) (trim s) = filter (\<lambda>c. \<not> is_space c) s"
proof -
  obtain pre post where "s = pre @ trim s @ post" "\<forall>c\<in>set pre. is_space c"
    "\<forall>c\<in>set post. is_space c"
    using trim_decompose [of s] by blast
  then have "filter (\<lambda>c. \<not> is_space c) s =
      filter (\<lambda>c. \<not> is_space c) (pre @ trim s @ post)"
    and "filter (\<lambda>c. \<not> is_space c) pre = []" and "filter (\<lambda>c. \<not> is_space c) post = []"
    by (simp_all add: filter_empty_conv)
  then show ?thesis by simp
qed

lemma trim_ends: "trim s = [] \<or> (\<not> is_space (hd (trim s)) \<and> \<not> is_space (last (trim s)))"
proof (cases "trim s = []")
  case True
  then show ?thesis by simp
next
  case False
  let ?d = "dropWhile is_space s"
  let ?e = "dropWhile is_space (rev ?d)"
  from False have e: "?e \<noteq> []" by (simp add: trim_def)
  with dropWhile_head [of is_space "rev ?d"] have "\<not> is_space (hd ?e)" by blast
  with e have l: "\<not> is_space (last (trim s))"
    by (simp add: trim_def last_rev)
  have d: "?d \<noteq> []"
  proof
    assume a: "?d = []"
    have "?e = []" unfolding a by simp
    with e show False by simp
  qed
  with dropWhile_head [of is_space s] have hd: "\<not> is_space (hd ?d)" by blast
  obtain x xs where dx: "?d = x # xs" using d by (cases ?d) auto
  with hd have x: "\<not> is_space x" by simp
  have "rev ?d = rev xs @ [x]" using dx by simp
  then have "?e = dropWhile is_space (rev xs) @ [x]"
    using x by (simp add: dropWhile_append)
  then have "trim s = x # rev (dropWhile is_space (rev xs))"
    by (simp add: trim_def)
  with x l show ?thesis by simp
qed

lemma take_77_length: "80 < length t \<Longrightarrow> length (take 77 t @ lit ''...'') = 80"
  by (simp add: lit_Cons lit_Nil)

lemma getItemTitle_Str:
  "content item = Str s \<Longrightarrow> s \<noteq> [] \<Longrightarrow>
   getItemTitle item =
     Some (if 80 < length (trim (collapse s)) then take 77 (trim (collapse s)) @ lit ''...''
           else trim (collapse s))"
  by (simp add: getItemTitle_def substring_def Let_def)

lemma getItemTitle_falsy:
  "\<not> truthy (content item) \<Longrightarrow>
   getItemTitle item = Some (toString (source item) @ lit '' post by '' @ toString (author item))"
  by (simp add: getItemTitle_def)

lemma trim_collapse_only_space:
  assumes "c \<in> set (trim (collapse s))" and "is_space c"
  shows "c = 0x20"
proof -
  obtain pre post where "collapse s = pre @ trim (collapse s) @ post"
    using trim_decompose [of "collapse s"] by blast
  then have "set (trim (collapse s)) \<subseteq> set (collapse s)"
    by (metis set_append Un_upper1 Un_upper2 subset_trans)
  with assms(1) have "c \<in> set (collapse s)" by blast
  then show ?thesis using assms(2) by (rule collapse_only_space)
qed

lemma trim_collapse_no_adjacent:
  assumes "trim (collapse s) = u @ a # b # v"
  shows "\<not> (is_space a \<and> is_space b)"
proof -
  obtain pre post where "collapse s = pre @ trim (collapse s) @ post"
    using trim_decompose [of "collapse s"] by blast
  with assms have "collapse s = (pre @ u) @ a # b # (v @ post)" by simp
  then show ?thesis by (rule collapse_no_adjacent)
qed

text \<open>
  Claim C1. For an item whose content is a non-empty string, \<open>getItemTitle\<close> returns the
  content with every run of white space collapsed to one space and trimmed; when that text
  is longer than 80 code units it returns its first 77 code units followed by \<open>...\<close>, 80
  code units in all. For an item whose content is falsy (absent, \<open>null\<close> or empty) it returns
  \<open>{source} post by {author}\<close> from the raw fields. The collapsed text keeps the characters
  that are not white space, in order; its only white space is the space character; no two
  white-space characters are adjacent; and it neither starts nor ends with white space.
\<close>

theorem getItemTitle_title:
  "(content item = Str s \<and> s \<noteq> [] \<longrightarrow>
      getItemTitle item =
        Some (if 80 < length (trim (collapse s)) then take 77 (trim (collapse s)) @ lit ''...''
              else trim (collapse s)) \<and>
      (80 < length (trim (collapse s)) \<longrightarrow>
         length (take 77 (trim (collapse s)) @ lit ''...'') = 80)) \<and>
   (\<not> truthy (content item) \<longrightarrow>
      getItemTitle item =
        Some (toString (source item) @ lit '' post by '' @ toString (author item))) \<and>
   filter (\<lambda>c. \<not> is_space c) (trim (collapse s)) = filter (\<lambda>c. \<not> is_space c) s \<and>
   (\<forall>c\<in>set (trim (collapse s)). is_space c \<longrightarrow> c = 0x20) \<and>
   (\<forall>u a b v. trim (collapse s) = u @ a # b # v \<longrightarrow> \<not> (is_space a \<and> is_space b)) \<and>
   (trim (collapse s) = [] \<or>
      \<not> is_space (hd (trim (collapse s))) \<and> \<not> is_space (last (trim (collapse s))))"
proof (intro conjI impI ballI allI)
  assume "content item = Str s \<and> s \<noteq> []"
  then show "getItemTitle item =
      Some (if 80 < length (trim (collapse s)) then take 77 (trim (collapse s)) @ lit ''...''
            else trim (collapse s))"
    by (simp add: getItemTitle_Str)
next
  assume "80 < length (trim (collapse s))"
  then show "length (take 77 (trim (collapse s)) @ lit ''...'') = 80"
    by (rule take_77_length)
next
  assume "\<not> truthy (content item)"
  then show "getItemTitle item =
      Some (toString (source item) @ lit '' post by '' @ toString (author item))"
    by (rule getItemTitle_falsy)
next
  show "filter (\<lambda>c. \<not> is_space c) (trim (collapse s)) = filter (\<lambda>c. \<not> is_space c) s"
    by (simp only: trim_filter collapse_filter)
next
  fix c
  assume "c \<in> set (trim (collapse s))" and "is_space c"
  then show "c = 0x20" by (rule trim_collapse_only_space)
next
  fix u a b v
  assume "trim (collapse s) = u @ a # b # v"
  then show "\<not> (is_space a \<and> is_space b)" by (rule trim_collapse_no_adjacent)
next
  show "trim (collapse s) = [] \<or>
      \<not> is_space (hd (trim (collapse s))) \<and> \<not> is_space (last (trim (collapse s)))"
    by (rule trim_ends)
qed

theorem getItemTitle_title_witness:
  "getItemTitle \<lparr>item_id = Str (lit ''1''), url = Str (lit ''u''), author = Str (lit ''bob''),
       source = Str (lit ''reddit''), category = Undefined,
       content = Str (lit ''  Check out   our new release! ''),
       timestamp = DateObject (Some 0), metadata = None\<rparr>
     = Some (lit ''Check out our new release!'') \<and>
   getItemTitle \<lparr>item_id = Str (lit ''2''), url = Str (lit ''u''), author = Str (lit ''bob''),
       source = Str (lit ''reddit''), category = Undefined,
       content = Str (lit ''xxxxxxxxxxxxxxxxxxxxxxxxxxxxxxxxxxxxxxxxxxxxxxxxxxxxxxxxxxxxxxxxxxxxxxxxxxxxxxxxxxxxxxxxxxxxxxxxxxxx''),
       timestamp = DateObject (Some 0), metadata = None\<rparr>
     = Some (lit ''xxxxxxxxxxxxxxxxxxxxxxxxxxxxxxxxxxxxxxxxxxxxxxxxxxxxxxxxxxxxxxxxxxxxxxxxxxxxx...'') \<and>
   getItemTitle \<lparr>item_id = Str (lit ''3''), url = Str (lit ''u''), author = Str (lit ''bob''),
       source = Str (lit ''reddit''), category = Undefined, content = Undefined,
       timestamp = DateObject (Some 0), metadata = None\<rparr>
     = Some (lit ''reddit post by bob'')"
proof -
  let ?s1 = "lit ''  Check out   our new release! ''"
  let ?s2 = "lit ''xxxxxxxxxxxxxxxxxxxxxxxxxxxxxxxxxxxxxxxxxxxxxxxxxxxxxxxxxxxxxxxxxxxxxxxxxxxxxxxxxxxxxxxxxxxxxxxxxxxx''"
  let ?i1 = "\<lparr>item_id = Str (lit ''1''), url = Str (lit ''u''), author = Str (lit ''bob''),
       source = Str (lit ''reddit''), category = Undefined, content = Str ?s1,
       timestamp = DateObject (Some 0), metadata = None\<rparr>"
  let ?i2 = "\<lparr>item_id = Str (lit ''2''), url = Str (lit ''u''), author = Str (lit ''bob''),
       source = Str (lit ''reddit''), category = Undefined, content = Str ?s2,
       timestamp = DateObject (Some 0), metadata = None\<rparr>"
  let ?i3 = "\<lparr>item_id = Str (lit ''3''), url = Str (lit ''u''), author = Str (lit ''bob''),
       source = Str (lit ''reddit''), category = Undefined, content = Undefined,
       timestamp = DateObject (Some 0), metadata = None\<rparr>"
  have t1: "trim (collapse ?s1) = lit ''Check out our new release!''" by code_simp
  have l1: "\<not> 80 < length (lit ''Check out our new release!'')" by code_simp
  have t2: "trim (collapse ?s2) = ?s2" by code_simp
  have l2: "80 < length ?s2" by code_simp
  have k2: "take 77 ?s2 @ lit ''...'' = lit ''xxxxxxxxxxxxxxxxxxxxxxxxxxxxxxxxxxxxxxxxxxxxxxxxxxxxxxxxxxxxxxxxxxxxxxxxxxxxx...''" by code_simp
  have "content ?i1 = Str ?s1 \<and> ?s1 \<noteq> []" by (simp add: lit_Cons)
  with getItemTitle_title [of ?i1 ?s1]
  have "getItemTitle ?i1 =
      Some (if 80 < length (trim (collapse ?s1)) then take 77 (trim (collapse ?s1)) @ lit ''...''
            else trim (collapse ?s1))"
    by blast
  then have a: "getItemTitle ?i1 = Some (lit ''Check out our new release!'')"
    by (simp only: t1 l1 if_False)
  have "content ?i2 = Str ?s2 \<and> ?s2 \<noteq> []" by (simp add: lit_Cons)
  with getItemTitle_title [of ?i2 ?s2]
  have "getItemTitle ?i2 =
      Some (if 80 < length (trim (collapse ?s2)) then take 77 (trim (collapse ?s2)) @ lit ''...''
            else trim (collapse ?s2))"
    by blast
  then have b: "getItemTitle ?i2 = Some (lit ''xxxxxxxxxxxxxxxxxxxxxxxxxxxxxxxxxxxxxxxxxxxxxxxxxxxxxxxxxxxxxxxxxxxxxxxxxxxxx...'')"
    by (simp only: t2 l2 k2 if_True)
  have "\<not> truthy (content ?i3)" by simp
  with getItemTitle_title [of ?i3 "[]"]
  have "getItemTitle ?i3 = Some (toString (source ?i3) @ lit '' post by '' @ toString (author ?i3))"
    by blast
  then have c: "getItemTitle ?i3 = Some (lit ''reddit post by bob'')"
    by (simp add: lit_append [symmetric])
  from a b c show ?thesis by blast
qed

section \<open>White-space content\<close>

lemma prefix_item_template:
  "item_template L = Some out \<Longrightarrow>
   prefix (lit ''    <item>\<newline>      <title>'' @ l_title L @ lit ''</title>'') out"
  by (auto simp add: item_template_def lit_append [symmetric] lit_Cons lit_Nil
      split: Option.bind_splits)

text \<open>
  Claim C10. For an item whose content is a non-empty string of white space only,
  \<open>getItemTitle\<close> returns the empty string and not the \<open>{source} post by {author}\<close>
  fallback, so the title local of \<open>generateItem\<close> is empty and the rendered item starts
  with an empty \<open>title\<close> element.
\<close>

theorem getItemTitle_blank:
  assumes "content item = Str s" and "s \<noteq> []" and "\<forall>c\<in>set s. is_space c"
  shows "getItemTitle item = Some [] \<and>
    getItemTitle item \<noteq>
      Some (toString (source item) @ lit '' post by '' @ toString (author item)) \<and>
    (\<forall>L. generateItem_locals parse item = Some L \<longrightarrow> l_title L = []) \<and>
    (\<forall>out. generateItem parse item = Some out \<longrightarrow>
       prefix (lit ''    <item>\<newline>      <title></title>'') out)"
proof -
  have "collapse s = [0x20]" using assms(2,3) by (rule collapse_blank)
  then have tc: "trim (collapse s) = []" by (simp add: trim_space)
  have title: "getItemTitle item = Some []"
    using assms(1,2) tc by (simp add: getItemTitle_Str)
  have locals: "l_title L = []" if "generateItem_locals parse item = Some L" for L
    using that title
    by (auto simp add: generateItem_locals_def split: Option.bind_splits if_splits)
  have out: "prefix (lit ''    <item>\<newline>      <title></title>'') out"
    if "generateItem parse item = Some out" for out
  proof -
    from that obtain L where L: "generateItem_locals parse item = Some L"
      and t: "item_template L = Some out"
      by (auto simp add: generateItem_def split: Option.bind_splits)
    from L have "l_title L = []" by (rule locals)
    with prefix_item_template [OF t] show ?thesis
      by (simp add: lit_append [symmetric])
  qed
  from title locals out show ?thesis
    by (simp add: lit_Cons lit_Nil)
qed

theorem getItemTitle_blank_witness:
  "getItemTitle \<lparr>item_id = Str (lit ''1''), url = Str (lit ''u''), author = Str (lit ''bob''),
       source = Str (lit ''reddit''), category = Undefined,
       content = Str [0x20, 0x09, 0x0A, 0x2003],
       timestamp = DateObject (Some 0), metadata = None\<rparr> = Some [] \<and>
   (\<exists>out. generateItem (\<lambda>s. None) \<lparr>item_id = Str (lit ''1''), url = Str (lit ''u''),
       author = Str (lit ''bob''), source = Str (lit ''reddit''), category = Undefined,
       content = Str [0x20, 0x09, 0x0A, 0x2003],
       timestamp = DateObject (Some 0), metadata = None\<rparr> = Some out \<and>
     prefix (lit ''    <item>\<newline>      <title></title>'') out)"
proof -
  let ?i = "\<lparr>item_id = Str (lit ''1''), url = Str (lit ''u''),
       author = Str (lit ''bob''), source = Str (lit ''reddit''), category = Undefined,
       content = Str [0x20, 0x09, 0x0A, 0x2003],
       timestamp = DateObject (Some 0), metadata = None\<rparr>"
  have sp: "\<forall>c\<in>set [0x20, 0x09, 0x0A, 0x2003 :: jschar]. is_space c"
    by (simp add: is_space_def)
  have c: "content ?i = Str [0x20, 0x09, 0x0A, 0x2003]" by simp
  have n: "[0x20, 0x09, 0x0A, 0x2003 :: jschar] \<noteq> []" by simp
  note b = getItemTitle_blank [OF c n sp, of "\<lambda>s. None"]
  from b have t: "getItemTitle ?i = Some []" by blast
  have "generateItem (\<lambda>s. None) ?i \<noteq> None"
    by (simp add: generateItem_def generateItem_locals_def t item_template_def
        getSourceName_def get_property_def names_def js_or_def lit_eq_iff)
  then obtain out where o: "generateItem (\<lambda>s. None) ?i = Some out" by blast
  with b have "prefix (lit ''    <item>\<newline>      <title></title>'') out" by blast
  with t o show ?thesis by blast
qed

section \<open>The category of an item\<close>

lemma generateItem_locals_category:
  assumes "generateItem_locals parse item = Some L"
  shows "if truthy (category item) then escapeXml (category item) = Some (l_category L)
         else l_category L = lit ''uncategorized''"
  using assms
  by (auto simp add: generateItem_locals_def split: Option.bind_splits if_splits)

lemma generateItem_locals_description:
  assumes "generateItem_locals parse item = Some L"
  shows "l_description L = build_description item (getSourceName (source item))"
  using assms
  by (auto simp add: generateItem_locals_def split: Option.bind_splits if_splits)

lemma generateItem_template:
  "generateItem_locals parse item = Some L \<Longrightarrow> generateItem parse item = item_template L"
  by (simp add: generateItem_def)

text \<open>
  Claim C4, as amended. The category is tested for truthiness, so an empty string counts
  as absent. For every item that \<open>generateItem\<close> renders: when the category is absent,
  \<open>null\<close> or the empty string, the \<open>category\<close> element is the literal \<open>uncategorized\<close>
  and the description has no Category paragraph; when the category is a non-empty string,
  the \<open>category\<close> element is the escaped category and the description has a Category
  paragraph with the raw category.
\<close>

theorem generateItem_category:
  assumes "generateItem_locals parse item = Some L"
  shows \<open>generateItem parse item = item_template L \<and>
    (\<not> truthy (category item) \<longrightarrow>
       l_category L = lit ''uncategorized'' \<and>
       l_description L =
         lit ''<![CDATA[<p><strong>Author:</strong> '' @ toString (author item) @
         lit ''</p><p><strong>Source:</strong> '' @ toString (getSourceName (source item)) @
         lit ''</p><hr/><p>'' @ toString (js_or (content item) (Str [])) @ lit ''</p>'' @
         (case metadata item of
            Some m \<Rightarrow> if source item = Str (lit ''twitter'') then twitter_block m else []
          | None \<Rightarrow> []) @
         lit '']]>'') \<and>
    (truthy (category item) \<longrightarrow>
       escapeXml (category item) = Some (l_category L) \<and>
       l_description L =
         lit ''<![CDATA[<p><strong>Author:</strong> '' @ toString (author item) @
         lit ''</p><p><strong>Source:</strong> '' @ toString (getSourceName (source item)) @
         lit ''</p><p><strong>Category:</strong> '' @ toString (category item) @
         lit ''</p><hr/><p>'' @ toString (js_or (content item) (Str [])) @ lit ''</p>'' @
         (case metadata item of
            Some m \<Rightarrow> if source item = Str (lit ''twitter'') then twitter_block m else []
          | None \<Rightarrow> []) @
         lit '']]>'')\<close>
proof (intro conjI impI)
  show "generateItem parse item = item_template L"
    using assms by (rule generateItem_template)
next
  assume "\<not> truthy (category item)"
  then show "l_category L = lit ''uncategorized''"
    using generateItem_locals_category [OF assms] by simp
next
  assume "\<not> truthy (category item)"
  then show "l_description L =
         lit ''<![CDATA[<p><strong>Author:</strong> '' @ toString (author item) @
         lit ''</p><p><strong>Source:</strong> '' @ toString (getSourceName (source item)) @
         lit ''</p><hr/><p>'' @ toString (js_or (content item) (Str [])) @ lit ''</p>'' @
         (case metadata item of
            Some m \<Rightarrow> if source item = Str (lit ''twitter'') then twitter_block m else []
          | None \<Rightarrow> []) @
         lit '']]>''"
    by (simp add: generateItem_locals_description [OF assms] build_description_def lit_Cons lit_Nil)
next
  assume "truthy (category item)"
  then show "escapeXml (category item) = Some (l_category L)"
    using generateItem_locals_category [OF assms] by simp
next
  assume "truthy (category item)"
  then show "l_description L =
         lit ''<![CDATA[<p><strong>Author:</strong> '' @ toString (author item) @
         lit ''</p><p><strong>Source:</strong> '' @ toString (getSourceName (source item)) @
         lit ''</p><p><strong>Category:</strong> '' @ toString (category item) @
         lit ''</p><hr/><p>'' @ toString (js_or (content item) (Str [])) @ lit ''</p>'' @
         (case metadata item of
            Some m \<Rightarrow> if source item = Str (lit ''twitter'') then twitter_block m else []
          | None \<Rightarrow> []) @
         lit '']]>''"
    by (simp add: generateItem_locals_description [OF assms] build_description_def lit_Cons lit_Nil)
qed


theorem generateItem_category_witness:
  \<open>generateItem_locals Map.empty
      \<lparr>item_id = Str (lit ''1''), url = Str (lit ''http://x/1''), author = Str (lit ''bob''),
       source = Str (lit ''reddit''), category = Undefined, content = Str (lit ''hi''),
       timestamp = DateObject (Some 0), metadata = None\<rparr> =
     Some \<lparr>l_title = lit ''hi'', l_link = lit ''http://x/1'', l_author = lit ''bob'',
       l_source = Str (lit ''Reddit''), l_category = lit ''uncategorized'',
       l_pubDate = lit ''Thu, 01 Jan 1970 00:00:00 GMT'', l_guid = lit ''1'',
       l_description = lit ''<![CDATA[<p><strong>Author:</strong> bob</p><p><strong>Source:</strong> Reddit</p><hr/><p>hi</p>]]>''\<rparr> \<and>
   generateItem Map.empty
      \<lparr>item_id = Str (lit ''1''), url = Str (lit ''http://x/1''), author = Str (lit ''bob''),
       source = Str (lit ''reddit''), category = Undefined, content = Str (lit ''hi''),
       timestamp = DateObject (Some 0), metadata = None\<rparr> =
     item_template \<lparr>l_title = lit ''hi'', l_link = lit ''http://x/1'', l_author = lit ''bob'',
       l_source = Str (lit ''Reddit''), l_category = lit ''uncategorized'',
       l_pubDate = lit ''Thu, 01 Jan 1970 00:00:00 GMT'', l_guid = lit ''1'',
       l_description = lit ''<![CDATA[<p><strong>Author:</strong> bob</p><p><strong>Source:</strong> Reddit</p><hr/><p>hi</p>]]>''\<rparr> \<and>
   generateItem_locals Map.empty
      \<lparr>item_id = Str (lit ''2''), url = Str (lit ''http://x/2''), author = Str (lit ''bob''),
       source = Str (lit ''reddit''), category = Str (lit ''a&b''), content = Str (lit ''hi''),
       timestamp = DateObject (Some 0), metadata = None\<rparr> =
     Some \<lparr>l_title = lit ''hi'', l_link = lit ''http://x/2'', l_author = lit ''bob'',
       l_source = Str (lit ''Reddit''), l_category = lit ''a&amp;b'',
       l_pubDate = lit ''Thu, 01 Jan 1970 00:00:00 GMT'', l_guid = lit ''2'',
       l_description = lit ''<![CDATA[<p><strong>Author:</strong> bob</p><p><strong>Source:</strong> Reddit</p><p><strong>Category:</strong> a&b</p><hr/><p>hi</p>]]>''\<rparr> \<and>
   generateItem Map.empty
      \<lparr>item_id = Str (lit ''2''), url = Str (lit ''http://x/2''), author = Str (lit ''bob''),
       source = Str (lit ''reddit''), category = Str (lit ''a&b''), content = Str (lit ''hi''),
       timestamp = DateObject (Some 0), metadata = None\<rparr> =
     item_template \<lparr>l_title = lit ''hi'', l_link = lit ''http://x/2'', l_author = lit ''bob'',
       l_source = Str (lit ''Reddit''), l_category = lit ''a&amp;b'',
       l_pubDate = lit ''Thu, 01 Jan 1970 00:00:00 GMT'', l_guid = lit ''2'',
       l_description = lit ''<![CDATA[<p><strong>Author:</strong> bob</p><p><strong>Source:</strong> Reddit</p><p><strong>Category:</strong> a&b</p><hr/><p>hi</p>]]>''\<rparr>\<close>
proof -
  have f1: \<open>generateItem_locals Map.empty
      \<lparr>item_id = Str (lit ''1''), url = Str (lit ''http://x/1''), author = Str (lit ''bob''),
       source = Str (lit ''reddit''), category = Undefined, content = Str (lit ''hi''),
       timestamp = DateObject (Some 0), metadata = None\<rparr> =
     Some \<lparr>l_title = lit ''hi'', l_link = lit ''http://x/1'', l_author = lit ''bob'',
       l_source = Str (lit ''Reddit''), l_category = lit ''uncategorized'',
       l_pubDate = lit ''Thu, 01 Jan 1970 00:00:00 GMT'', l_guid = lit ''1'',
       l_description = lit ''<![CDATA[<p><strong>Author:</strong> bob</p><p><strong>Source:</strong> Reddit</p><hr/><p>hi</p>]]>''\<rparr>\<close>
    by code_simp
  have f2: \<open>generateItem_locals Map.empty
      \<lparr>item_id = Str (lit ''2''), url = Str (lit ''http://x/2''), author = Str (lit ''bob''),
       source = Str (lit ''reddit''), category = Str (lit ''a&b''), content = Str (lit ''hi''),
       timestamp = DateObject (Some 0), metadata = None\<rparr> =
     Some \<lparr>l_title = lit ''hi'', l_link = lit ''http://x/2'', l_author = lit ''bob'',
       l_source = Str (lit ''Reddit''), l_category = lit ''a&amp;b'',
       l_pubDate = lit ''Thu, 01 Jan 1970 00:00:00 GMT'', l_guid = lit ''2'',
       l_description = lit ''<![CDATA[<p><strong>Author:</strong> bob</p><p><strong>Source:</strong> Reddit</p><p><strong>Category:</strong> a&b</p><hr/><p>hi</p>]]>''\<rparr>\<close>
    by code_simp
  from generateItem_category [OF f1] generateItem_category [OF f2] f1 f2 show ?thesis
    by blast
qed

text \<open>
  The claim as stated fails for a category that is present and empty: the element reads
  \<open>uncategorized\<close> and there is no Category paragraph.
\<close>

theorem category_empty_string_counterexample:
  \<open>generateItem Map.empty
      \<lparr>item_id = Str (lit ''1''), url = Str (lit ''http://x/1''), author = Str (lit ''bob''),
       source = Str (lit ''reddit''), category = Str [], content = Str (lit ''hi''),
       timestamp = DateObject (Some 0), metadata = None\<rparr> =
    Some (lit ''    <item>\<newline>      <title>hi</title>\<newline>      <link>http://x/1</link>\<newline>      <description><![CDATA[<p><strong>Author:</strong> bob</p><p><strong>Source:</strong> Reddit</p><hr/><p>hi</p>]]></description>\<newline>      <author>bob</author>\<newline>      <category>uncategorized</category>\<newline>      <pubDate>Thu, 01 Jan 1970 00:00:00 GMT</pubDate>\<newline>      <guid isPermaLink="false">1</guid>\<newline>      <source url="http://x/1">Reddit</source>\<newline>    </item>'')\<close>
  by code_simp

section \<open>The Twitter metadata block\<close>











section \<open>Properties of generateRssFeed\<close>

lemma array_map_Some: "array_map f xs = Some ys \<longleftrightarrow> map f xs = map Some ys"
proof (induction xs arbitrary: ys)
  case Nil
  show ?case by auto
next
  case (Cons x xs)
  show ?case
  proof (cases ys)
    case Nil
    then show ?thesis by (auto split: Option.bind_splits)
  next
    case (Cons y ys')
    then show ?thesis
      using Cons.IH [of ys'] by (auto split: Option.bind_splits)
  qed
qed

lemma array_map_length: "array_map f xs = Some ys \<Longrightarrow> length ys = length xs"
  using array_map_Some [of f xs ys] map_eq_imp_length_eq by fastforce

lemma escapeXml_plain: "set s \<inter> reserved = {} \<Longrightarrow> escapeXml (Str s) = Some s"
proof -
  assume "set s \<inter> reserved = {}"
  then have "concat (map entity s) = s"
    by (induction s) (auto simp add: entity_unreserved)
  then show ?thesis by (simp only: escapeXml_Str)
qed

lemma default_title: "escapeXml (Str (lit ''Factory AI Social Feed'')) = Some (lit ''Factory AI Social Feed'')"
  by (rule escapeXml_plain) (simp add: reserved_def lit_Cons lit_Nil)

lemma default_link: "escapeXml (Str (lit ''https://factory.ai'')) = Some (lit ''https://factory.ai'')"
  by (rule escapeXml_plain) (simp add: reserved_def lit_Cons lit_Nil)

lemma default_description:
  "escapeXml (Str (lit ''Aggregated mentions from Twitter, Reddit, and GitHub'')) =
     Some (lit ''Aggregated mentions from Twitter, Reddit, and GitHub'')"
  by (rule escapeXml_plain) (simp add: reserved_def lit_Cons lit_Nil)

lemma generateRssFeed_None:
  "generateRssFeed parse now items None =
     do {
       fragments \<leftarrow> array_map (generateItem parse) items;
       Some (feed_template (lit ''Factory AI Social Feed'') (lit ''https://factory.ai'')
         (lit ''Aggregated mentions from Twitter, Reddit, and GitHub'')
         (toRfc822 parse (DateObject (Some now))) (join (lit ''\<newline>'') fragments))
     }"
  by (simp add: generateRssFeed_def no_options_def js_or_def default_title default_link
      default_description del: escapeXml.simps)




section \<open>The envelope and its defaults\<close>

lemma generateRssFeed_title_default:
  assumes "\<not> truthy (title opt)"
  shows "generateRssFeed parse now items (Some opt) =
    generateRssFeed parse now items (Some (opt\<lparr>title := Str (lit ''Factory AI Social Feed'')\<rparr>))"
  using assms by (simp add: generateRssFeed_def js_or_def lit_Cons del: escapeXml.simps)

lemma generateRssFeed_link_default:
  assumes "\<not> truthy (link opt)"
  shows "generateRssFeed parse now items (Some opt) =
    generateRssFeed parse now items (Some (opt\<lparr>link := Str (lit ''https://factory.ai'')\<rparr>))"
  using assms by (simp add: generateRssFeed_def js_or_def lit_Cons del: escapeXml.simps)

lemma generateRssFeed_description_default:
  assumes "\<not> truthy (description opt)"
  shows "generateRssFeed parse now items (Some opt) =
    generateRssFeed parse now items (Some (opt\<lparr>description :=
      Str (lit ''Aggregated mentions from Twitter, Reddit, and GitHub'')\<rparr>))"
  using assms by (simp add: generateRssFeed_def js_or_def lit_Cons del: escapeXml.simps)

lemma feed_template_empty:
  \<open>feed_template (lit ''Factory AI Social Feed'') (lit ''https://factory.ai'')
     (lit ''Aggregated mentions from Twitter, Reddit, and GitHub'') date [] =
   lit ''<?xml version="1.0" encoding="UTF-8"?>\<newline><rss version="2.0" xmlns:atom="http://www.w3.org/2005/Atom">\<newline>  <channel>\<newline>    <title>Factory AI Social Feed</title>\<newline>    <link>https://factory.ai</link>\<newline>    <description>Aggregated mentions from Twitter, Reddit, and GitHub</description>\<newline>    <language>en-us</language>\<newline>    <lastBuildDate>'' @
   date @
   lit ''</lastBuildDate>\<newline>    <generator>Factory AI Feed Scraper</generator>\<newline>    <ttl>10</ttl>\<newline>\<newline>  </channel>\<newline></rss>''\<close>
  by (simp add: feed_template_def lit_Cons lit_Nil)

text \<open>
  Claim C7. \<open>generateRssFeed([], {})\<close>, and the call without options, return the document
  below: the XML declaration, the \<open>rss\<close> root with the Atom namespace, one channel with
  the default title, link and description, the fixed language, generator and ttl, the
  build date, and no item. A falsy title, link or description option gives the same
  result as passing the default text for it, for every list of items.
\<close>

theorem generateRssFeed_empty:
  \<open>generateRssFeed parse now [] None =
     Some (lit ''<?xml version="1.0" encoding="UTF-8"?>\<newline><rss version="2.0" xmlns:atom="http://www.w3.org/2005/Atom">\<newline>  <channel>\<newline>    <title>Factory AI Social Feed</title>\<newline>    <link>https://factory.ai</link>\<newline>    <description>Aggregated mentions from Twitter, Reddit, and GitHub</description>\<newline>    <language>en-us</language>\<newline>    <lastBuildDate>'' @
       toUTCString (Some now) @
       lit ''</lastBuildDate>\<newline>    <generator>Factory AI Feed Scraper</generator>\<newline>    <ttl>10</ttl>\<newline>\<newline>  </channel>\<newline></rss>'') \<and>
   generateRssFeed parse now []
       (Some \<lparr>title = Undefined, link = Undefined, description = Undefined\<rparr>) =
     generateRssFeed parse now [] None \<and>
   (\<not> truthy (title opt) \<longrightarrow>
      generateRssFeed parse now items (Some opt) =
      generateRssFeed parse now items
        (Some (opt\<lparr>title := Str (lit ''Factory AI Social Feed'')\<rparr>))) \<and>
   (\<not> truthy (link opt) \<longrightarrow>
      generateRssFeed parse now items (Some opt) =
      generateRssFeed parse now items (Some (opt\<lparr>link := Str (lit ''https://factory.ai'')\<rparr>))) \<and>
   (\<not> truthy (description opt) \<longrightarrow>
      generateRssFeed parse now items (Some opt) =
      generateRssFeed parse now items
        (Some (opt\<lparr>description :=
           Str (lit ''Aggregated mentions from Twitter, Reddit, and GitHub'')\<rparr>)))\<close>
proof (intro conjI impI)
  have "toRfc822 parse (DateObject (Some now)) = toUTCString (Some now)"
    by (simp add: toRfc822_def new_Date_def del: toUTCString.simps)
  then show \<open>generateRssFeed parse now [] None =
     Some (lit ''<?xml version="1.0" encoding="UTF-8"?>\<newline><rss version="2.0" xmlns:atom="http://www.w3.org/2005/Atom">\<newline>  <channel>\<newline>    <title>Factory AI Social Feed</title>\<newline>    <link>https://factory.ai</link>\<newline>    <description>Aggregated mentions from Twitter, Reddit, and GitHub</description>\<newline>    <language>en-us</language>\<newline>    <lastBuildDate>'' @
       toUTCString (Some now) @
       lit ''</lastBuildDate>\<newline>    <generator>Factory AI Feed Scraper</generator>\<newline>    <ttl>10</ttl>\<newline>\<newline>  </channel>\<newline></rss>'')\<close>
    by (simp add: generateRssFeed_None feed_template_empty del: toUTCString.simps)
next
  show "generateRssFeed parse now []
       (Some \<lparr>title = Undefined, link = Undefined, description = Undefined\<rparr>) =
     generateRssFeed parse now [] None"
    by (simp add: generateRssFeed_def no_options_def)
next
  assume "\<not> truthy (title opt)"
  then show "generateRssFeed parse now items (Some opt) =
      generateRssFeed parse now items
        (Some (opt\<lparr>title := Str (lit ''Factory AI Social Feed'')\<rparr>))"
    by (rule generateRssFeed_title_default)
next
  assume "\<not> truthy (link opt)"
  then show "generateRssFeed parse now items (Some opt) =
      generateRssFeed parse now items (Some (opt\<lparr>link := Str (lit ''https://factory.ai'')\<rparr>))"
    by (rule generateRssFeed_link_default)
next
  assume "\<not> truthy (description opt)"
  then show "generateRssFeed parse now items (Some opt) =
      generateRssFeed parse now items
        (Some (opt\<lparr>description :=
           Str (lit ''Aggregated mentions from Twitter, Reddit, and GitHub'')\<rparr>))"
    by (rule generateRssFeed_description_default)
qed


theorem generateRssFeed_empty_witness:
  \<open>\<not> truthy (title \<lparr>title = Str [], link = Null, description = Undefined\<rparr>) \<and>
   \<not> truthy (link \<lparr>title = Str [], link = Null, description = Undefined\<rparr>) \<and>
   \<not> truthy (description \<lparr>title = Str [], link = Null, description = Undefined\<rparr>) \<and>
   generateRssFeed Map.empty 1727881445000 []
       (Some \<lparr>title = Str [], link = Null, description = Undefined\<rparr>) =
     Some (lit ''<?xml version="1.0" encoding="UTF-8"?>\<newline><rss version="2.0" xmlns:atom="http://www.w3.org/2005/Atom">\<newline>  <channel>\<newline>    <title>Factory AI Social Feed</title>\<newline>    <link>https://factory.ai</link>\<newline>    <description>Aggregated mentions from Twitter, Reddit, and GitHub</description>\<newline>    <language>en-us</language>\<newline>    <lastBuildDate>Wed, 02 Oct 2024 15:04:05 GMT</lastBuildDate>\<newline>    <generator>Factory AI Feed Scraper</generator>\<newline>    <ttl>10</ttl>\<newline>\<newline>  </channel>\<newline></rss>'')\<close>
proof -
  let ?o = "\<lparr>title = Str [], link = Null, description = Undefined\<rparr>"
  let ?t = "Str (lit ''Factory AI Social Feed'')"
  let ?l = "Str (lit ''https://factory.ai'')"
  let ?d = "Str (lit ''Aggregated mentions from Twitter, Reddit, and GitHub'')"
  have a: "\<not> truthy (title ?o)" and b: "\<not> truthy (link (?o\<lparr>title := ?t\<rparr>))"
    and c: "\<not> truthy (description (?o\<lparr>title := ?t, link := ?l\<rparr>))"
    by simp_all
  have "generateRssFeed Map.empty 1727881445000 [] (Some ?o) =
      generateRssFeed Map.empty 1727881445000 [] (Some (?o\<lparr>title := ?t\<rparr>))"
    using generateRssFeed_empty [where opt = ?o] a by blast
  also have "\<dots> = generateRssFeed Map.empty 1727881445000 [] (Some (?o\<lparr>title := ?t, link := ?l\<rparr>))"
    using generateRssFeed_empty [where opt = "?o\<lparr>title := ?t\<rparr>"] b by blast
  also have "\<dots> = generateRssFeed Map.empty 1727881445000 []
      (Some (?o\<lparr>title := ?t, link := ?l, description := ?d\<rparr>))"
    using generateRssFeed_empty [where opt = "?o\<lparr>title := ?t, link := ?l\<rparr>"] c by blast
  also have \<open>\<dots> =
     Some (lit ''<?xml version="1.0" encoding="UTF-8"?>\<newline><rss version="2.0" xmlns:atom="http://www.w3.org/2005/Atom">\<newline>  <channel>\<newline>    <title>Factory AI Social Feed</title>\<newline>    <link>https://factory.ai</link>\<newline>    <description>Aggregated mentions from Twitter, Reddit, and GitHub</description>\<newline>    <language>en-us</language>\<newline>    <lastBuildDate>Wed, 02 Oct 2024 15:04:05 GMT</lastBuildDate>\<newline>    <generator>Factory AI Feed Scraper</generator>\<newline>    <ttl>10</ttl>\<newline>\<newline>  </channel>\<newline></rss>'')\<close>
    by code_simp
  finally show ?thesis by simp
qed

section \<open>Properties of toRfc822\<close>












text \<open>
  The calendar arithmetic on known dates: the epoch and the second before it, leap days
  of 2000 and 2024, the day after 28 February 1900, and the last day of 2000.
\<close>

lemma toUTCString_examples:
  "toUTCString (Some 0) = lit ''Thu, 01 Jan 1970 00:00:00 GMT''"
  "toUTCString (Some (- 1)) = lit ''Wed, 31 Dec 1969 23:59:59 GMT''"
  "toUTCString (Some 951782400000) = lit ''Tue, 29 Feb 2000 00:00:00 GMT''"
  "toUTCString (Some 1709164800000) = lit ''Thu, 29 Feb 2024 00:00:00 GMT''"
  "toUTCString (Some (- 2203891200000)) = lit ''Thu, 01 Mar 1900 00:00:00 GMT''"
  "toUTCString (Some 978220800000) = lit ''Sun, 31 Dec 2000 00:00:00 GMT''"
  by code_simp+





end
